theory Spec2Isabelle
  imports Main
begin

section \<open>Data model of server.ts\<close>

text \<open>
  The model follows the second (current) version of \<^verbatim>\<open>src/server.ts\<close>, lines 282 to 573.
  \<^verbatim>\<open>interface IGame { game : string, startDate : string, endDate : string }\<close>
\<close>

record IGame =
  game :: string
  startDate :: string
  endDate :: string

text \<open>
  One element of \<^verbatim>\<open>data.data.Catalog.searchStore.elements\<close>. The source types it
  \<^verbatim>\<open>any\<close>; the three fields that \<^verbatim>\<open>curGame\<close> reads are kept. What the element
  holds under \<^verbatim>\<open>expiryDate\<close> decides the filter, so that field keeps the three cases
  the code tells apart: the key is missing (\<^verbatim>\<open>undefined\<close>), it holds \<^verbatim>\<open>null\<close>, or it
  holds a timestamp string.
\<close>

datatype expiry = Undefined | Null | Timestamp string

record catalog_element =
  title :: string
  effectiveDate :: string
  expiryDate :: expiry

text \<open>\<^verbatim>\<open>class AppError extends Error { statusCode : number; constructor(msg, statusCode = 500) }\<close>\<close>

datatype AppError = AppError (msg: string) (statusCode: nat)

text \<open>
  A value caught by a \<^verbatim>\<open>catch\<close> clause: an \<^verbatim>\<open>AppError\<close> thrown by the program, or
  an error of a library (fetch, JSON parsing, Mongoose, nodemailer), of which only the
  rendering in a template literal is used.
\<close>

datatype thrown = App AppError | Ext string

text \<open>
  \<^verbatim>\<open>`${err}`\<close>: \<^verbatim>\<open>Error.prototype.toString\<close>. \<^verbatim>\<open>AppError\<close> does not set \<^verbatim>\<open>name\<close>, so
  the name is \<^verbatim>\<open>Error\<close>; an empty message leaves the name alone.
\<close>

fun toString :: "thrown \<Rightarrow> string" where
  "toString (App e) = (if msg e = [] then ''Error'' else ''Error: '' @ msg e)"
| "toString (Ext s) = s"

text \<open>The JSON bodies the routes write, and the object handed to \<^verbatim>\<open>transporter.sendMail\<close>.\<close>

datatype body =
    Msg string
  | Name string
  | GamesDetail "IGame option"
  | ErrorBody string

datatype response = Json nat body | NoResponse

text \<open>
  \<^verbatim>\<open>mailOptions\<close>: the computed key of line 443 is either \<^verbatim>\<open>bcc\<close> or \<^verbatim>\<open>to\<close>, so
  exactly one of the two headers is present in the object.
\<close>

record mail_options =
  from_hdr :: string
  to_hdr :: "string option"
  bcc_hdr :: "string option"
  subject_hdr :: string
  text_body :: string
  html_body :: string

text \<open>\<^verbatim>\<open>to : string | string[]\<close> of \<^verbatim>\<open>IMailOptions\<close>.\<close>

datatype to_arg = Str string | Arr "string list"

text \<open>
  Mongoose rejects a document on \<^verbatim>\<open>save()\<close> in two ways that the schemas of lines
  347 to 356 declare: a \<^verbatim>\<open>required\<close> path that is missing (for a String path, also
  the empty string), and a \<^verbatim>\<open>unique\<close> path whose value is already in the collection.
\<close>

datatype store_error = ValidationError | DuplicateKey

text \<open>
  What the program does to the outside, in order: documents written to the two
  collections and objects handed to the mail transporter (whether or not delivery
  succeeds).
\<close>

datatype effect =
    GameSaved IGame
  | MailSaved string
  | GameDeleted
  | MailDeleted string
  | MailSubmitted mail_options

text \<open>
  The state a request runs on. Each collection is the list of its documents in the order
  of their \<^verbatim>\<open>createdAt\<close> timestamps, oldest first, so the document that
  \<^verbatim>\<open>findOne({}).sort({createdAt : -1})\<close> returns is the last one. The database itself is
  taken to be reachable.
\<close>

record world =
  gameList :: "IGame list"
  mailList :: "string list"
  effects :: "effect list"

text \<open>
  What the program reads from outside and the library functions it calls:
  the result of \<^verbatim>\<open>fetch(URL)\<close> followed by \<^verbatim>\<open>response.json()\<close> and the path to
  \<^verbatim>\<open>elements\<close> (\<open>Inl\<close> the rendering of the error thrown), the value of
  \<^verbatim>\<open>new Date()\<close> in milliseconds, \<^verbatim>\<open>new Date(str)\<close> (\<open>None\<close> is the invalid date),
  \<^verbatim>\<open>toLocaleDateString('en-IN')\<close>, \<^verbatim>\<open>transporter.sendMail\<close> (\<open>Some\<close> the rendering
  of the error it throws, \<open>None\<close> when the mail is accepted),
  \<^verbatim>\<open>process.env.EMAIL_USER || 'your-email@gmail.com'\<close>, the rendering of a Mongoose
  error, and the \<^verbatim>\<open>trim\<close> sanitizer and \<^verbatim>\<open>isEmail\<close> validator of express-validator.
\<close>

record env =
  feed :: "string + catalog_element list"
  now :: int
  Date :: "string \<Rightarrow> int option"
  toLocaleDateString :: "int option \<Rightarrow> string"
  transport :: "mail_options \<Rightarrow> string option"
  EMAIL_USER :: string
  storeErrorText :: "store_error \<Rightarrow> string"
  trim :: "string \<Rightarrow> string"
  isEmail :: "string \<Rightarrow> bool"

section \<open>Functions\<close>

text \<open>\<^verbatim>\<open>Array.prototype.join(', ')\<close> on an array of strings.\<close>

fun join :: "string list \<Rightarrow> string" where
  "join [] = []"
| "join [x] = x"
| "join (x # y # ys) = x @ '', '' @ join (y # ys)"

text \<open>\<^verbatim>\<open>const formatDate = (dateStr) => new Date(dateStr).toLocaleDateString('en-IN')\<close>\<close>

definition formatDate :: "env \<Rightarrow> string \<Rightarrow> string" where
  "formatDate e dateStr = toLocaleDateString e (Date e dateStr)"

text \<open>
  \<^verbatim>\<open>formatDate(curFreeGame.expiryDate)\<close> on what the element holds:
  \<^verbatim>\<open>new Date(undefined)\<close> is the invalid date and \<^verbatim>\<open>new Date(null)\<close> is the epoch.
\<close>

definition formatExpiry :: "env \<Rightarrow> expiry \<Rightarrow> string" where
  "formatExpiry e d =
     (case d of
        Timestamp s \<Rightarrow> formatDate e s
      | Undefined \<Rightarrow> toLocaleDateString e None
      | Null \<Rightarrow> toLocaleDateString e (Some 0))"

text \<open>The template literal of \<^verbatim>\<open>formatToHTML\<close>, line breaks and indentation included.\<close>

definition nl :: string where
  "nl = [CHR 0x0A]"

definition formatToHTML :: "IGame \<Rightarrow> string" where
  "formatToHTML ele =
     (let html = nl @ ''    <h1>Free Game from Epic Store</h1>'' @ nl
                 @ ''    <h2>'' @ game ele @ ''</h2>'' @ nl
                 @ ''    <h4>Start Date : '' @ startDate ele @ ''</h4>'' @ nl
                 @ ''    <h4>End Date : '' @ endDate ele @ ''</h4>'' @ nl
                 @ ''    ''
      in if html = [] then [] else html)"

text \<open>
  The filter of \<^verbatim>\<open>curGame\<close>: \<^verbatim>\<open>ele.expiryDate !== null && now > effectiveDateFormatted\<close>.
  The strict comparison is false for \<^verbatim>\<open>null\<close> only, so a missing key passes it.
  Comparing two dates compares their time values, and a comparison with the invalid
  date is false.
\<close>

definition isCurrentFree :: "env \<Rightarrow> catalog_element \<Rightarrow> bool" where
  "isCurrentFree e ele =
     (expiryDate ele \<noteq> Null \<and>
      (case Date e (effectiveDate ele) of None \<Rightarrow> False | Some t \<Rightarrow> now e > t))"

definition curGame :: "env \<Rightarrow> string + IGame option" where
  "curGame e =
     (case feed e of
        Inl err \<Rightarrow> Inl err
      | Inr games \<Rightarrow>
          (let currentFreeGames = filter (isCurrentFree e) games in
           if length currentFreeGames = 0 then Inr None
           else (case currentFreeGames of
                   [] \<Rightarrow> Inr None
                 | curFreeGame # _ \<Rightarrow>
                     Inr (Some \<lparr> game = title curFreeGame,
                                 startDate = formatDate e (effectiveDate curFreeGame),
                                 endDate = formatExpiry e (expiryDate curFreeGame) \<rparr>))))"

text \<open>
  \<^verbatim>\<open>sendMail({to, subject = 'Free epic game', text, html})\<close>. The object is handed to the
  transporter whatever the recipients are; an error of the transporter is rethrown as an
  \<^verbatim>\<open>AppError\<close> with status 500.
\<close>

definition orElse :: "string option \<Rightarrow> string \<Rightarrow> string" where
  "orElse v d = (case v of None \<Rightarrow> d | Some s \<Rightarrow> if s = [] then d else s)"

definition mailOptions :: "env \<Rightarrow> to_arg \<Rightarrow> string option \<Rightarrow> string option \<Rightarrow> string option \<Rightarrow> mail_options" where
  "mailOptions e to subject text html =
     (let recipients = (case to of Arr xs \<Rightarrow> join xs | Str s \<Rightarrow> s);
          bcc = (case to of Arr xs \<Rightarrow> length xs > 1 | Str s \<Rightarrow> False)
      in \<lparr> from_hdr = EMAIL_USER e,
           to_hdr = (if bcc then None else Some recipients),
           bcc_hdr = (if bcc then Some recipients else None),
           subject_hdr = orElse subject ''Free epic game'',
           text_body = orElse text [],
           html_body = orElse html [] \<rparr>)"

definition sendMail :: "env \<Rightarrow> to_arg \<Rightarrow> string option \<Rightarrow> string option \<Rightarrow> string option \<Rightarrow> world \<Rightarrow> (AppError + unit) \<times> world" where
  "sendMail e to subject text html w =
     (let opts = mailOptions e to subject text html;
          w' = w\<lparr> effects := effects w @ [MailSubmitted opts] \<rparr>
      in case transport e opts of
           None \<Rightarrow> (Inr (), w')
         | Some error \<Rightarrow> (Inl (AppError (''Can't send mail : '' @ error) 500), w'))"

section \<open>The two collections\<close>

text \<open>
  \<^verbatim>\<open>gamesListSchema\<close>: \<^verbatim>\<open>game\<close> is required and unique, \<^verbatim>\<open>startDate\<close> is required,
  \<^verbatim>\<open>endDate\<close> is optional. Validation runs before the insert.
\<close>

definition save_game :: "IGame \<Rightarrow> IGame list \<Rightarrow> store_error + IGame list" where
  "save_game doc coll =
     (if game doc = [] \<or> startDate doc = [] then Inl ValidationError
      else if game doc \<in> set (map game coll) then Inl DuplicateKey
      else Inr (coll @ [doc]))"

text \<open>\<^verbatim>\<open>mailListSchema\<close>: \<^verbatim>\<open>email\<close> is required and unique.\<close>

definition save_mail :: "string \<Rightarrow> string list \<Rightarrow> store_error + string list" where
  "save_mail email coll =
     (if email = [] then Inl ValidationError
      else if email \<in> set coll then Inl DuplicateKey
      else Inr (coll @ [email]))"

text \<open>\<^verbatim>\<open>gameList.findOne({}).sort({createdAt : -1})\<close>\<close>

definition findLatest :: "IGame list \<Rightarrow> IGame option" where
  "findLatest coll = (case rev coll of [] \<Rightarrow> None | g # _ \<Rightarrow> Some g)"

text \<open>\<^verbatim>\<open>mailList.findOne({email})\<close>\<close>

definition findOne_mail :: "string \<Rightarrow> string list \<Rightarrow> string option" where
  "findOne_mail email coll = List.find (\<lambda>m. m = email) coll"

text \<open>\<^verbatim>\<open>findOneAndDelete\<close> on either collection: the first match is removed, if any.\<close>

definition deleteLatest :: "IGame list \<Rightarrow> IGame list" where
  "deleteLatest coll = butlast coll"

definition delete_mail :: "string \<Rightarrow> string list \<Rightarrow> string list" where
  "delete_mail email coll = remove1 email coll"

section \<open>Validation and error middleware\<close>

text \<open>
  The last \<^verbatim>\<open>app.use\<close>: \<^verbatim>\<open>res.status(err.statusCode).json({ error: err.message})\<close>. Every
  \<^verbatim>\<open>next(new AppError(...))\<close> of a route ends here.
\<close>

definition errorMiddleware :: "AppError \<Rightarrow> response" where
  "errorMiddleware err = Json (statusCode err) (ErrorBody (msg err))"

text \<open>
  \<^verbatim>\<open>body('email').isString().trim().isLength({min:6}).isEmail().withMessage('Enter a valid email')\<close>
  followed by \<^verbatim>\<open>checkValidation\<close>. The body's \<^verbatim>\<open>email\<close> is a string here, so
  \<^verbatim>\<open>isString\<close> passes; the chain does not bail, a validator without a message reports
  \<^verbatim>\<open>Invalid value\<close>, and the handler sees the trimmed value.
\<close>

definition emailVal :: "env \<Rightarrow> string \<Rightarrow> AppError + string" where
  "emailVal e raw =
     (let email = trim e raw;
          errors = (if length email < 6 then [''Invalid value''] else [])
                   @ (if isEmail e email then [] else [''Enter a valid email''])
      in if errors = [] then Inr email else Inl (AppError (join errors) 400))"

section \<open>Routes\<close>

text \<open>\<^verbatim>\<open>app.get(['/', '/checkgame'], ...)\<close>\<close>

definition checkgame :: "env \<Rightarrow> world \<Rightarrow> response \<times> world" where
  "checkgame e w =
     (case curGame e of
        Inr gamesDetail \<Rightarrow> (Json 200 (GamesDetail gamesDetail), w)
      | Inl err \<Rightarrow> (errorMiddleware (AppError (''Can't check the game : '' @ err) 500), w))"

text \<open>The handler of \<^verbatim>\<open>app.post('/add-mail', emailVal, ...)\<close>, on the validated email.\<close>

definition add_mail_handler :: "env \<Rightarrow> string \<Rightarrow> world \<Rightarrow> response \<times> world" where
  "add_mail_handler e email w =
     (case findOne_mail email (mailList w) of
        Some mail \<Rightarrow>
          (errorMiddleware (AppError ''Email already exist in the mailing list'' 400), w)
      | None \<Rightarrow>
          (case save_mail email (mailList w) of
             Inl err \<Rightarrow>
               (errorMiddleware (AppError (''Can't add mail : '' @ storeErrorText e err) 500), w)
           | Inr coll \<Rightarrow>
               (let w1 = w\<lparr> mailList := coll, effects := effects w @ [MailSaved email] \<rparr> in
                case curGame e of
                  Inl err \<Rightarrow>
                    (errorMiddleware (AppError (''Can't add mail : '' @ err) 500), w1)
                | Inr None \<Rightarrow> (Json 201 (Msg ''Email added to list''), w1)
                | Inr (Some game') \<Rightarrow>
                    (let html = formatToHTML game' in
                     case sendMail e (Str email) None None (Some html) w1 of
                       (Inl err, w2) \<Rightarrow>
                         (errorMiddleware
                            (AppError (''Can't add mail : '' @ toString (App err)) 500), w2)
                     | (Inr u, w2) \<Rightarrow> (Json 201 (Msg ''Email added to list''), w2)))))"

definition add_mail :: "env \<Rightarrow> string \<Rightarrow> world \<Rightarrow> response \<times> world" where
  "add_mail e raw w =
     (case emailVal e raw of
        Inl err \<Rightarrow> (errorMiddleware err, w)
      | Inr email \<Rightarrow> add_mail_handler e email w)"

text \<open>
  \<^verbatim>\<open>app.post('/send-to-mailList', ...)\<close>. When \<^verbatim>\<open>curGame\<close> returns \<^verbatim>\<open>null\<close> the handler
  returns a fresh \<^verbatim>\<open>AppError\<close> without passing it to \<^verbatim>\<open>next\<close>, so nothing is written
  to the response. \<^verbatim>\<open>latestGame.game === latestSavedGame?.game\<close> compares a string with
  \<^verbatim>\<open>undefined\<close> when the collection is empty, which is false.
\<close>

definition sameGame :: "IGame \<Rightarrow> IGame option \<Rightarrow> bool" where
  "sameGame latestGame latestSavedGame =
     (case latestSavedGame of None \<Rightarrow> False | Some saved \<Rightarrow> game latestGame = game saved)"

definition send_to_mailList :: "env \<Rightarrow> world \<Rightarrow> response \<times> world" where
  "send_to_mailList e w =
     (case curGame e of
        Inl err \<Rightarrow>
          (errorMiddleware (AppError (''Can't send mails to mail list : '' @ err) 500), w)
      | Inr None \<Rightarrow> (NoResponse, w)
      | Inr (Some latestGame) \<Rightarrow>
          (let latestSavedGame = findLatest (gameList w) in
           if sameGame latestGame latestSavedGame then (Json 200 (Msg ''Same game''), w)
           else
             (let newGame = \<lparr> game = game latestGame, startDate = startDate latestGame,
                              endDate = endDate latestGame \<rparr> in
              case save_game newGame (gameList w) of
                Inl err \<Rightarrow>
                  (errorMiddleware
                     (AppError (''Can't send mails to mail list : '' @ storeErrorText e err) 500), w)
              | Inr coll \<Rightarrow>
                  (let w1 = w\<lparr> gameList := coll, effects := effects w @ [GameSaved newGame] \<rparr>;
                       mailingList = mailList w1 in
                   case sendMail e (Arr mailingList) None None (Some (formatToHTML latestGame)) w1 of
                     (Inl err, w2) \<Rightarrow>
                       (errorMiddleware
                          (AppError (''Can't send mails to mail list : '' @ toString (App err)) 500),
                        w2)
                   | (Inr u, w2) \<Rightarrow> (Json 200 (Name (game latestGame)), w2)))))"

text \<open>\<^verbatim>\<open>app.post('/remove-latest-game', ...)\<close> and \<^verbatim>\<open>app.post('/remove-mail', emailVal, ...)\<close>\<close>

definition remove_latest_game :: "world \<Rightarrow> response \<times> world" where
  "remove_latest_game w =
     (Json 200 (Msg ''Game deleted''),
      w\<lparr> gameList := deleteLatest (gameList w), effects := effects w @ [GameDeleted] \<rparr>)"

definition remove_mail :: "env \<Rightarrow> string \<Rightarrow> world \<Rightarrow> response \<times> world" where
  "remove_mail e raw w =
     (case emailVal e raw of
        Inl err \<Rightarrow> (errorMiddleware err, w)
      | Inr email \<Rightarrow>
          (Json 200 (Msg ''Mail removed''),
           w\<lparr> mailList := delete_mail email (mailList w),
              effects := effects w @ [MailDeleted email] \<rparr>))"


section \<open>Concrete feeds, environments and states\<close>

text \<open>
  The scenarios of the specification's testable properties: games \<^verbatim>\<open>Alpha\<close> and
  \<^verbatim>\<open>Beta\<close>, an entry that has not started, an entry whose expiry date is \<^verbatim>\<open>null\<close>,
  an entry that has no \<^verbatim>\<open>expiryDate\<close> key and an entry with an empty title. Times are milliseconds since the epoch; the present is
  2 January 2024.
\<close>

definition alpha_element :: catalog_element where
  "alpha_element = \<lparr> title = ''Alpha'', effectiveDate = ''2024-01-01T16:00:00.000Z'',
                     expiryDate = Timestamp ''2024-01-08T16:00:00.000Z'' \<rparr>"

definition beta_element :: catalog_element where
  "beta_element = \<lparr> title = ''Beta'', effectiveDate = ''2024-01-01T16:00:00.000Z'',
                    expiryDate = Timestamp ''2024-01-08T16:00:00.000Z'' \<rparr>"

definition upcoming_element :: catalog_element where
  "upcoming_element = \<lparr> title = ''Gamma'', effectiveDate = ''2024-01-08T16:00:00.000Z'',
                        expiryDate = Timestamp ''2024-01-15T16:00:00.000Z'' \<rparr>"

definition open_ended_element :: catalog_element where
  "open_ended_element = \<lparr> title = ''Delta'', effectiveDate = ''2024-01-01T16:00:00.000Z'',
                          expiryDate = Null \<rparr>"

definition keyless_element :: catalog_element where
  "keyless_element = \<lparr> title = ''Epsilon'', effectiveDate = ''2024-01-01T16:00:00.000Z'',
                       expiryDate = Undefined \<rparr>"

definition untitled_element :: catalog_element where
  "untitled_element = \<lparr> title = [], effectiveDate = ''2024-01-01T16:00:00.000Z'',
                        expiryDate = Timestamp ''2024-01-08T16:00:00.000Z'' \<rparr>"

definition demo_Date :: "string \<Rightarrow> int option" where
  "demo_Date s =
     (if s = ''2024-01-01T16:00:00.000Z'' then Some 1704124800000
      else if s = ''2024-01-08T16:00:00.000Z'' then Some 1704729600000
      else if s = ''2024-01-15T16:00:00.000Z'' then Some 1705334400000
      else None)"

definition demo_toLocaleDateString :: "int option \<Rightarrow> string" where
  "demo_toLocaleDateString t =
     (if t = Some 1704124800000 then ''1/1/2024''
      else if t = Some 1704729600000 then ''8/1/2024''
      else if t = Some 1705334400000 then ''15/1/2024''
      else ''Invalid Date'')"

definition demo_storeErrorText :: "store_error \<Rightarrow> string" where
  "demo_storeErrorText err =
     (case err of ValidationError \<Rightarrow> ''ValidationError'' | DuplicateKey \<Rightarrow> ''MongoServerError'')"

definition demo_isEmail :: "string \<Rightarrow> bool" where
  "demo_isEmail s = (CHR ''@'' \<in> set s)"

definition accepting :: "mail_options \<Rightarrow> string option" where
  "accepting opts = None"

definition refusing :: "mail_options \<Rightarrow> string option" where
  "refusing opts = Some ''Error: connect ETIMEDOUT''"

definition demo_env :: "catalog_element list \<Rightarrow> (mail_options \<Rightarrow> string option) \<Rightarrow> env" where
  "demo_env games tr =
     \<lparr> feed = Inr games, now = 1704200000000, Date = demo_Date,
       toLocaleDateString = demo_toLocaleDateString, transport = tr,
       EMAIL_USER = ''your-email@gmail.com'', storeErrorText = demo_storeErrorText,
       trim = id, isEmail = demo_isEmail \<rparr>"

definition alpha :: IGame where
  "alpha = \<lparr> game = ''Alpha'', startDate = ''1/1/2024'', endDate = ''8/1/2024'' \<rparr>"

definition beta :: IGame where
  "beta = \<lparr> game = ''Beta'', startDate = ''1/1/2024'', endDate = ''8/1/2024'' \<rparr>"

definition alpha_rerun :: IGame where
  "alpha_rerun = \<lparr> game = ''Alpha'', startDate = ''3/6/2023'', endDate = ''10/6/2023'' \<rparr>"

definition untitled :: IGame where
  "untitled = \<lparr> game = [], startDate = ''1/1/2024'', endDate = ''8/1/2024'' \<rparr>"

definition demo_world :: "IGame list \<Rightarrow> string list \<Rightarrow> world" where
  "demo_world games mails = \<lparr> gameList = games, mailList = mails, effects = [] \<rparr>"

section \<open>Auxiliary facts\<close>

lemmas demo_defs = demo_env_def demo_world_def isCurrentFree_def open_ended_element_def
  keyless_element_def
  upcoming_element_def alpha_element_def beta_element_def untitled_element_def demo_Date_def
  demo_toLocaleDateString_def alpha_def beta_def alpha_rerun_def untitled_def formatDate_def formatExpiry_def
  accepting_def refusing_def demo_storeErrorText_def demo_isEmail_def

lemma isCurrentFree_iff:
  "isCurrentFree e ele \<longleftrightarrow>
     expiryDate ele \<noteq> Null \<and> (\<exists>t. Date e (effectiveDate ele) = Some t \<and> t < now e)"
  by (auto simp: isCurrentFree_def split: option.splits)

lemma filter_first_index:
  assumes "i < length xs" "P (xs ! i)" "\<forall>j<i. \<not> P (xs ! j)"
  shows "\<exists>rest. filter P xs = xs ! i # rest"
  using assms
proof (induction xs arbitrary: i)
  case Nil
  then show ?case by simp
next
  case (Cons a xs)
  show ?case
  proof (cases i)
    case 0
    with Cons.prems show ?thesis by simp
  next
    case (Suc k)
    with Cons.prems have "\<not> P a" by auto
    moreover have "\<exists>rest. filter P xs = xs ! k # rest"
      using Cons.prems Suc by (intro Cons.IH) auto
    ultimately show ?thesis using Suc by simp
  qed
qed

lemma save_game_Inr_iff:
  "save_game doc coll = Inr c \<longleftrightarrow>
     game doc \<noteq> [] \<and> startDate doc \<noteq> [] \<and> game doc \<notin> set (map game coll) \<and> c = coll @ [doc]"
  by (auto simp: save_game_def)

lemma sameGame_in_history:
  "sameGame G (findLatest coll) \<Longrightarrow> game G \<in> set (map game coll)"
  by (cases coll rule: rev_cases) (auto simp: sameGame_def findLatest_def)

lemma findLatest_snoc: "findLatest (coll @ [g]) = Some g"
  by (simp add: findLatest_def)

lemma same_fields: "\<lparr> game = game G, startDate = startDate G, endDate = endDate G \<rparr> = (G::IGame)"
  by simp

lemma sameGame_latest: "sameGame G (Some G') \<longleftrightarrow> game G = game G'"
  by (simp add: sameGame_def)

text \<open>The three ways a cycle with a fetched game ends.\<close>

lemma send_to_mailList_same:
  assumes "curGame e = Inr (Some G)" "sameGame G (findLatest (gameList w))"
  shows "send_to_mailList e w = (Json 200 (Msg ''Same game''), w)"
  using assms by (simp add: send_to_mailList_def)

lemma send_to_mailList_rejected:
  assumes "curGame e = Inr (Some G)" "\<not> sameGame G (findLatest (gameList w))"
    "save_game G (gameList w) = Inl err"
  shows "send_to_mailList e w =
           (Json 500 (ErrorBody (''Can't send mails to mail list : '' @ storeErrorText e err)), w)"
  using assms by (simp add: send_to_mailList_def errorMiddleware_def Let_def same_fields)

lemma send_to_mailList_notify:
  assumes "curGame e = Inr (Some G)" "\<not> sameGame G (findLatest (gameList w))"
    "save_game G (gameList w) = Inr coll"
  shows "send_to_mailList e w =
           ((case transport e (mailOptions e (Arr (mailList w)) None None (Some (formatToHTML G))) of
               None \<Rightarrow> Json 200 (Name (game G))
             | Some err \<Rightarrow>
                 Json 500 (ErrorBody (''Can't send mails to mail list : Error: Can't send mail : '' @ err))),
            w\<lparr> gameList := coll,
               effects := effects w @ [GameSaved G,
                 MailSubmitted (mailOptions e (Arr (mailList w)) None None (Some (formatToHTML G)))] \<rparr>)"
  using assms
  by (simp add: send_to_mailList_def sendMail_def errorMiddleware_def Let_def same_fields
      split: option.splits)

text \<open>What \<^verbatim>\<open>curGame\<close> returns on the concrete feeds.\<close>

lemma curGame_demo_alpha:
  "curGame (demo_env [open_ended_element, upcoming_element, alpha_element, beta_element] tr)
     = Inr (Some alpha)"
  by (simp add: curGame_def demo_defs)

lemma curGame_demo_beta: "curGame (demo_env [beta_element] tr) = Inr (Some beta)"
  by (simp add: curGame_def demo_defs)

lemma curGame_demo_alpha1: "curGame (demo_env [alpha_element] tr) = Inr (Some alpha)"
  by (simp add: curGame_def demo_defs)

lemma curGame_demo_untitled: "curGame (demo_env [untitled_element] tr) = Inr (Some untitled)"
  by (simp add: curGame_def demo_defs)

lemma curGame_demo_none: "curGame (demo_env [open_ended_element, upcoming_element] tr) = Inr None"
  by (simp add: curGame_def demo_defs)

text \<open>Further facts about the collections, the validator and the template.\<close>

lemma findLatest_Nil: "findLatest [] = None"
  by (simp add: findLatest_def)


lemma emailVal_Inr:
  "emailVal e raw = Inr email \<longleftrightarrow> email = trim e raw \<and> 6 \<le> length email \<and> isEmail e email"
  by (auto simp: emailVal_def Let_def)

lemma findOne_mail_None: "findOne_mail email coll = None \<longleftrightarrow> email \<notin> set coll"
  by (auto simp: findOne_mail_def find_None_iff)

lemma findOne_mail_Some: "email \<in> set coll \<Longrightarrow> \<exists>m. findOne_mail email coll = Some m"
  by (cases "findOne_mail email coll") (auto simp: findOne_mail_None)

lemma formatToHTML_not_empty: "formatToHTML g \<noteq> []"
  by (simp add: formatToHTML_def nl_def)

section \<open>The notification decision\<close>

text \<open>
  Claim C1, as amended. With a fetched game \<open>G\<close> and a latest saved game \<open>G'\<close>, the cycle
  answers \<^verbatim>\<open>Same game\<close> exactly when the two titles are equal, whatever the dates, and
  then changes nothing: no document is appended and no mail is handed to the
  transporter. When the titles differ the handler saves and then mails: if the store
  accepts the document (title and start date not empty, title not yet in the
  collection, as the schema's \<^verbatim>\<open>required\<close> and \<^verbatim>\<open>unique\<close> ask), the game is appended
  and then one mail for the whole mailing list is handed to the transporter.
\<close>

theorem decision_by_title:
  assumes "curGame e = Inr (Some G)" and "findLatest (gameList w) = Some G'"
  shows "(fst (send_to_mailList e w) = Json 200 (Msg ''Same game'') \<longleftrightarrow> game G = game G')
       \<and> (game G = game G' \<longrightarrow> snd (send_to_mailList e w) = w)
       \<and> (game G \<noteq> game G' \<and> game G \<noteq> [] \<and> startDate G \<noteq> []
            \<and> game G \<notin> set (map game (gameList w)) \<longrightarrow>
          snd (send_to_mailList e w) =
            w\<lparr> gameList := gameList w @ [G],
               effects := effects w @ [GameSaved G,
                 MailSubmitted (mailOptions e (Arr (mailList w)) None None (Some (formatToHTML G)))] \<rparr>)"
proof (cases "game G = game G'")
  case True
  then have "sameGame G (findLatest (gameList w))"
    using assms(2) by (simp add: sameGame_latest)
  from send_to_mailList_same [OF assms(1) this] True show ?thesis by simp
next
  case False
  then have ns: "\<not> sameGame G (findLatest (gameList w))"
    using assms(2) by (simp add: sameGame_latest)
  show ?thesis
  proof (cases "save_game G (gameList w)")
    case (Inl err)
    then have rej: "game G = [] \<or> startDate G = [] \<or> game G \<in> set (map game (gameList w))"
      by (auto simp: save_game_def split: if_splits)
    from send_to_mailList_rejected [OF assms(1) ns Inl] False rej show ?thesis by auto
  next
    case (Inr coll)
    then have acc: "game G \<noteq> [] \<and> startDate G \<noteq> [] \<and> game G \<notin> set (map game (gameList w))
        \<and> coll = gameList w @ [G]"
      by (simp add: save_game_Inr_iff)
    from send_to_mailList_notify [OF assms(1) ns Inr] False acc show ?thesis
      by (auto split: option.splits)
  qed
qed

text \<open>
  Two scenarios. The feed shows \<^verbatim>\<open>Beta\<close>, the latest saved game is \<^verbatim>\<open>Alpha\<close>, two
  subscribers: \<^verbatim>\<open>Beta\<close> is appended, then one mail is submitted. The feed shows
  \<^verbatim>\<open>Alpha\<close> and the latest saved game is \<^verbatim>\<open>Alpha\<close> with other dates: nothing happens.
\<close>

theorem decision_by_title_witness:
  "curGame (demo_env [beta_element] accepting) = Inr (Some beta)
   \<and> findLatest (gameList (demo_world [alpha] [''a@x.com'', ''b@x.com''])) = Some alpha
   \<and> game beta \<noteq> game alpha
   \<and> snd (send_to_mailList (demo_env [beta_element] accepting)
            (demo_world [alpha] [''a@x.com'', ''b@x.com''])) =
       \<lparr> gameList = [alpha, beta], mailList = [''a@x.com'', ''b@x.com''],
         effects = [GameSaved beta,
           MailSubmitted (mailOptions (demo_env [beta_element] accepting)
             (Arr [''a@x.com'', ''b@x.com'']) None None (Some (formatToHTML beta)))] \<rparr>
   \<and> curGame (demo_env [alpha_element] accepting) = Inr (Some alpha)
   \<and> findLatest (gameList (demo_world [alpha_rerun] [''a@x.com''])) = Some alpha_rerun
   \<and> game alpha = game alpha_rerun \<and> startDate alpha \<noteq> startDate alpha_rerun
   \<and> send_to_mailList (demo_env [alpha_element] accepting) (demo_world [alpha_rerun] [''a@x.com''])
       = (Json 200 (Msg ''Same game''), demo_world [alpha_rerun] [''a@x.com''])"
proof -
  have c': "curGame (demo_env [alpha_element] accepting) = Inr (Some alpha)"
    by (rule curGame_demo_alpha1)
  have l': "findLatest (gameList (demo_world [alpha_rerun] [''a@x.com''])) = Some alpha_rerun"
    by (simp add: findLatest_def demo_world_def)
  have d': "game alpha = game alpha_rerun \<and> startDate alpha \<noteq> startDate alpha_rerun"
    by (simp add: alpha_def alpha_rerun_def)
  note same = decision_by_title [OF c' l']
  from same d'
  have f': "fst (send_to_mailList (demo_env [alpha_element] accepting)
                  (demo_world [alpha_rerun] [''a@x.com''])) = Json 200 (Msg ''Same game'')"
    by blast
  from same d'
  have s': "snd (send_to_mailList (demo_env [alpha_element] accepting)
                  (demo_world [alpha_rerun] [''a@x.com''])) = demo_world [alpha_rerun] [''a@x.com'']"
    by blast
  have r': "send_to_mailList (demo_env [alpha_element] accepting) (demo_world [alpha_rerun] [''a@x.com''])
       = (Json 200 (Msg ''Same game''), demo_world [alpha_rerun] [''a@x.com''])"
    using f' s' by (simp add: prod_eq_iff)
  have c: "curGame (demo_env [beta_element] accepting) = Inr (Some beta)"
    by (rule curGame_demo_beta)
  have l: "findLatest (gameList (demo_world [alpha] [''a@x.com'', ''b@x.com''])) = Some alpha"
    by (simp add: findLatest_def demo_world_def)
  have d: "game beta \<noteq> game alpha" by (simp add: alpha_def beta_def)
  have n: "game beta \<noteq> [] \<and> startDate beta \<noteq> []
      \<and> game beta \<notin> set (map game (gameList (demo_world [alpha] [''a@x.com'', ''b@x.com''])))"
    by (simp add: alpha_def beta_def demo_world_def)
  from decision_by_title [OF c l] d n
  have "snd (send_to_mailList (demo_env [beta_element] accepting)
            (demo_world [alpha] [''a@x.com'', ''b@x.com''])) =
        (demo_world [alpha] [''a@x.com'', ''b@x.com''])
          \<lparr> gameList := gameList (demo_world [alpha] [''a@x.com'', ''b@x.com'']) @ [beta],
            effects := effects (demo_world [alpha] [''a@x.com'', ''b@x.com'']) @ [GameSaved beta,
              MailSubmitted (mailOptions (demo_env [beta_element] accepting)
                (Arr (mailList (demo_world [alpha] [''a@x.com'', ''b@x.com''])))
                None None (Some (formatToHTML beta)))] \<rparr>"
    by blast
  then have "snd (send_to_mailList (demo_env [beta_element] accepting)
            (demo_world [alpha] [''a@x.com'', ''b@x.com''])) =
       \<lparr> gameList = [alpha, beta], mailList = [''a@x.com'', ''b@x.com''],
         effects = [GameSaved beta,
           MailSubmitted (mailOptions (demo_env [beta_element] accepting)
             (Arr [''a@x.com'', ''b@x.com'']) None None (Some (formatToHTML beta)))] \<rparr>"
    by (simp add: demo_world_def)
  with c l d c' l' d' r' show ?thesis by blast
qed

text \<open>
  The claim as stated fails when a title comes back: the collection holds \<^verbatim>\<open>Alpha\<close>
  then \<^verbatim>\<open>Beta\<close>, and the feed shows \<^verbatim>\<open>Alpha\<close> again. The titles differ, yet the unique
  index rejects the document: nothing is appended and no mail is sent.
\<close>

theorem repeated_title_counterexample:
  "curGame (demo_env [alpha_element] accepting) = Inr (Some alpha)
   \<and> findLatest (gameList (demo_world [alpha, beta] [''a@x.com''])) = Some beta
   \<and> game alpha \<noteq> game beta
   \<and> send_to_mailList (demo_env [alpha_element] accepting) (demo_world [alpha, beta] [''a@x.com''])
       = (Json 500 (ErrorBody ''Can't send mails to mail list : MongoServerError''),
          demo_world [alpha, beta] [''a@x.com''])"
proof -
  have c: "curGame (demo_env [alpha_element] accepting) = Inr (Some alpha)"
    by (rule curGame_demo_alpha1)
  have l: "findLatest (gameList (demo_world [alpha, beta] [''a@x.com''])) = Some beta"
    by (simp add: findLatest_def demo_world_def)
  have d: "game alpha \<noteq> game beta" by (simp add: alpha_def beta_def)
  have ns: "\<not> sameGame alpha (findLatest (gameList (demo_world [alpha, beta] [''a@x.com''])))"
    using l d by (simp add: sameGame_def)
  have sv: "save_game alpha (gameList (demo_world [alpha, beta] [''a@x.com''])) = Inl DuplicateKey"
    by (simp add: save_game_def demo_world_def alpha_def beta_def)
  have t: "storeErrorText (demo_env [alpha_element] accepting) DuplicateKey = ''MongoServerError''"
    by (simp add: demo_env_def demo_storeErrorText_def)
  from send_to_mailList_rejected [OF c ns sv] c l d t show ?thesis by simp
qed

text \<open>
  Claim C5. When \<^verbatim>\<open>curGame\<close> returns \<^verbatim>\<open>null\<close> the cycle leaves the state as it
  found it, whatever the collections hold: no document is appended and no mail is
  handed to the transporter. (The handler also writes no response.)
\<close>

theorem no_current_game_no_action:
  assumes "curGame e = Inr None"
  shows "send_to_mailList e w = (NoResponse, w)"
  using assms by (simp add: send_to_mailList_def)

theorem no_current_game_no_action_witness:
  "curGame (demo_env [open_ended_element, upcoming_element] accepting) = Inr None
   \<and> send_to_mailList (demo_env [open_ended_element, upcoming_element] accepting)
         (demo_world [alpha] [''a@x.com'']) = (NoResponse, demo_world [alpha] [''a@x.com''])"
proof -
  have h: "curGame (demo_env [open_ended_element, upcoming_element] accepting) = Inr None"
    by (rule curGame_demo_none)
  show ?thesis using h no_current_game_no_action [OF h] by simp
qed

text \<open>
  Claim C6, as amended. When the games collection is empty and the fetched game has a
  title and a start date that are not empty, the cycle takes the notify branch: the
  game becomes the only document of the collection, and then one mail for the whole
  mailing list is handed to the transporter. The answer is 200 with the game's name
  when the transporter accepts the mail and 500 when it throws.
\<close>

theorem first_observation_notifies:
  assumes "curGame e = Inr (Some G)" and "gameList w = []"
    and "game G \<noteq> []" and "startDate G \<noteq> []"
  shows "send_to_mailList e w =
           ((case transport e (mailOptions e (Arr (mailList w)) None None (Some (formatToHTML G))) of
               None \<Rightarrow> Json 200 (Name (game G))
             | Some err \<Rightarrow>
                 Json 500 (ErrorBody (''Can't send mails to mail list : Error: Can't send mail : '' @ err))),
            w\<lparr> gameList := [G],
               effects := effects w @ [GameSaved G,
                 MailSubmitted (mailOptions e (Arr (mailList w)) None None (Some (formatToHTML G)))] \<rparr>)"
proof -
  have ns: "\<not> sameGame G (findLatest (gameList w))"
    using assms(2) by (simp add: findLatest_Nil sameGame_def)
  have sv: "save_game G (gameList w) = Inr [G]"
    using assms by (simp add: save_game_def)
  from send_to_mailList_notify [OF assms(1) ns sv] show ?thesis .
qed

text \<open>
  The first scenario of the specification: the feed shows \<^verbatim>\<open>Alpha\<close> and the
  collection is empty.
\<close>

theorem first_observation_notifies_witness:
  "curGame (demo_env [alpha_element] accepting) = Inr (Some alpha)
   \<and> gameList (demo_world [] [''a@x.com'']) = []
   \<and> game alpha \<noteq> [] \<and> startDate alpha \<noteq> []
   \<and> send_to_mailList (demo_env [alpha_element] accepting) (demo_world [] [''a@x.com'']) =
       (Json 200 (Name ''Alpha''),
        \<lparr> gameList = [alpha], mailList = [''a@x.com''],
          effects = [GameSaved alpha,
            MailSubmitted (mailOptions (demo_env [alpha_element] accepting) (Arr [''a@x.com''])
              None None (Some (formatToHTML alpha)))] \<rparr>)"
proof -
  have c: "curGame (demo_env [alpha_element] accepting) = Inr (Some alpha)"
    by (rule curGame_demo_alpha1)
  have g: "gameList (demo_world [] [''a@x.com'']) = []" by (simp add: demo_world_def)
  have t: "game alpha \<noteq> []" by (simp add: alpha_def)
  have s: "startDate alpha \<noteq> []" by (simp add: alpha_def)
  have tr: "transport (demo_env [alpha_element] accepting) = accepting"
    by (simp add: demo_env_def)
  have ga: "game alpha = ''Alpha''" by (simp add: alpha_def)
  from first_observation_notifies [OF c g t s] c g t s show ?thesis
    by (simp add: tr accepting_def demo_world_def ga)
qed

text \<open>
  The claim as stated, for any fetched game, fails for a feed entry whose title is the
  empty string: \<^verbatim>\<open>game\<close> is a required String path, Mongoose rejects the empty
  string there, and the cycle ends with a 500, nothing persisted and no mail.
\<close>

theorem empty_title_counterexample:
  "curGame (demo_env [untitled_element] accepting) = Inr (Some untitled)
   \<and> gameList (demo_world [] [''a@x.com'']) = []
   \<and> send_to_mailList (demo_env [untitled_element] accepting) (demo_world [] [''a@x.com''])
       = (Json 500 (ErrorBody ''Can't send mails to mail list : ValidationError''),
          demo_world [] [''a@x.com''])"
proof -
  have c: "curGame (demo_env [untitled_element] accepting) = Inr (Some untitled)"
    by (rule curGame_demo_untitled)
  have g: "gameList (demo_world [] [''a@x.com'']) = []" by (simp add: demo_world_def)
  have ns: "\<not> sameGame untitled (findLatest (gameList (demo_world [] [''a@x.com''])))"
    by (simp add: g findLatest_Nil sameGame_def)
  have sv: "save_game untitled (gameList (demo_world [] [''a@x.com''])) = Inl ValidationError"
    by (simp add: save_game_def untitled_def)
  have t: "storeErrorText (demo_env [untitled_element] accepting) ValidationError = ''ValidationError''"
    by (simp add: demo_env_def demo_storeErrorText_def)
  from send_to_mailList_rejected [OF c ns sv] c g t show ?thesis by simp
qed

section \<open>Two cycles on an unchanged feed\<close>



text \<open>
  Claim C8. In a cycle whose save succeeds, the document is appended first and the
  mail is handed to the transporter second, whether or not the transporter then
  throws. When it throws, the answer is a 500 and the collection keeps the new game,
  so the next cycle on the same fetched game answers \<^verbatim>\<open>Same game\<close> and sends
  nothing: the notification is not retried.
\<close>

theorem append_precedes_send:
  assumes "curGame e1 = Inr (Some G)" and "curGame e2 = Inr (Some G)"
    and "save_game G (gameList w) = Inr coll"
  shows "snd (send_to_mailList e1 w) =
           w\<lparr> gameList := gameList w @ [G],
              effects := effects w @ [GameSaved G,
                MailSubmitted (mailOptions e1 (Arr (mailList w)) None None (Some (formatToHTML G)))] \<rparr>
       \<and> (\<forall>err. transport e1 (mailOptions e1 (Arr (mailList w)) None None (Some (formatToHTML G)))
                   = Some err \<longrightarrow>
            fst (send_to_mailList e1 w) =
              Json 500 (ErrorBody (''Can't send mails to mail list : Error: Can't send mail : '' @ err)))
       \<and> send_to_mailList e2 (snd (send_to_mailList e1 w)) =
           (Json 200 (Msg ''Same game''), snd (send_to_mailList e1 w))"
proof -
  have coll: "coll = gameList w @ [G]" and fresh: "game G \<notin> set (map game (gameList w))"
    using assms(3) by (simp_all add: save_game_Inr_iff)
  have ns: "\<not> sameGame G (findLatest (gameList w))"
    using fresh sameGame_in_history by blast
  note run = send_to_mailList_notify [OF assms(1) ns assms(3)]
  let ?w1 = "snd (send_to_mailList e1 w)"
  have w1: "?w1 = w\<lparr> gameList := gameList w @ [G],
              effects := effects w @ [GameSaved G,
                MailSubmitted (mailOptions e1 (Arr (mailList w)) None None (Some (formatToHTML G)))] \<rparr>"
    using run coll by simp
  have "sameGame G (findLatest (gameList ?w1))"
    by (simp add: w1 findLatest_snoc sameGame_def)
  from send_to_mailList_same [OF assms(2) this]
  have r2: "send_to_mailList e2 ?w1 = (Json 200 (Msg ''Same game''), ?w1)" .
  have r1: "\<forall>err. transport e1 (mailOptions e1 (Arr (mailList w)) None None (Some (formatToHTML G)))
                   = Some err \<longrightarrow>
            fst (send_to_mailList e1 w) =
              Json 500 (ErrorBody (''Can't send mails to mail list : Error: Can't send mail : '' @ err))"
    using run by simp
  from w1 r1 r2 show ?thesis by blast
qed

theorem append_precedes_send_witness:
  "curGame (demo_env [alpha_element] refusing) = Inr (Some alpha)
   \<and> curGame (demo_env [alpha_element] accepting) = Inr (Some alpha)
   \<and> save_game alpha (gameList (demo_world [] [''a@x.com'', ''b@x.com''])) = Inr [alpha]
   \<and> send_to_mailList (demo_env [alpha_element] refusing) (demo_world [] [''a@x.com'', ''b@x.com'']) =
       (Json 500 (ErrorBody
          ''Can't send mails to mail list : Error: Can't send mail : Error: connect ETIMEDOUT''),
        \<lparr> gameList = [alpha], mailList = [''a@x.com'', ''b@x.com''],
          effects = [GameSaved alpha,
            MailSubmitted (mailOptions (demo_env [alpha_element] refusing)
              (Arr [''a@x.com'', ''b@x.com'']) None None (Some (formatToHTML alpha)))] \<rparr>)
   \<and> send_to_mailList (demo_env [alpha_element] accepting)
        (snd (send_to_mailList (demo_env [alpha_element] refusing)
               (demo_world [] [''a@x.com'', ''b@x.com'']))) =
       (Json 200 (Msg ''Same game''),
        \<lparr> gameList = [alpha], mailList = [''a@x.com'', ''b@x.com''],
          effects = [GameSaved alpha,
            MailSubmitted (mailOptions (demo_env [alpha_element] refusing)
              (Arr [''a@x.com'', ''b@x.com'']) None None (Some (formatToHTML alpha)))] \<rparr>)"
proof -
  let ?e1 = "demo_env [alpha_element] refusing"
  let ?e2 = "demo_env [alpha_element] accepting"
  let ?w = "demo_world [] [''a@x.com'', ''b@x.com'']"
  have c1: "curGame ?e1 = Inr (Some alpha)" by (rule curGame_demo_alpha1)
  have c2: "curGame ?e2 = Inr (Some alpha)" by (rule curGame_demo_alpha1)
  have sv: "save_game alpha (gameList ?w) = Inr [alpha]"
    by (simp add: save_game_def demo_world_def alpha_def)
  have tr: "transport ?e1 (mailOptions ?e1 (Arr (mailList ?w)) None None (Some (formatToHTML alpha)))
      = Some ''Error: connect ETIMEDOUT''"
    by (simp add: demo_env_def refusing_def)
  note t = append_precedes_send [OF c1 c2 sv]
  from t have s: "snd (send_to_mailList ?e1 ?w) =
      \<lparr> gameList = [alpha], mailList = [''a@x.com'', ''b@x.com''],
          effects = [GameSaved alpha,
            MailSubmitted (mailOptions ?e1 (Arr [''a@x.com'', ''b@x.com'']) None None
              (Some (formatToHTML alpha)))] \<rparr>"
    by (simp add: demo_world_def)
  from t tr have f: "fst (send_to_mailList ?e1 ?w) = Json 500 (ErrorBody
          ''Can't send mails to mail list : Error: Can't send mail : Error: connect ETIMEDOUT'')"
    by simp
  from t have r: "send_to_mailList ?e2 (snd (send_to_mailList ?e1 ?w)) =
           (Json 200 (Msg ''Same game''), snd (send_to_mailList ?e1 ?w))"
    by blast
  have p: "send_to_mailList ?e1 ?w = (fst (send_to_mailList ?e1 ?w), snd (send_to_mailList ?e1 ?w))"
    by simp
  show ?thesis
    using c1 c2 sv r p unfolding f s by simp
qed

section \<open>Addressing the mail\<close>

text \<open>
  Claim C2. With exactly one recipient, as a one-element array or as a plain string,
  the object handed to the transporter has a \<^verbatim>\<open>to\<close> header naming that recipient
  and no \<^verbatim>\<open>bcc\<close>. With more than one recipient it has no \<^verbatim>\<open>to\<close> header, the
  joined addresses are in \<^verbatim>\<open>bcc\<close> only, and every other field (sender, subject,
  text, html) is computed without the recipients. \<^verbatim>\<open>sendMail\<close> hands exactly this
  object to the transporter.
\<close>

theorem recipient_mode:
  "(to_hdr (mailOptions e (Arr [r]) s t h) = Some r \<and> bcc_hdr (mailOptions e (Arr [r]) s t h) = None)
   \<and> (to_hdr (mailOptions e (Str r) s t h) = Some r \<and> bcc_hdr (mailOptions e (Str r) s t h) = None)
   \<and> (1 < length rs \<longrightarrow>
        to_hdr (mailOptions e (Arr rs) s t h) = None
        \<and> bcc_hdr (mailOptions e (Arr rs) s t h) = Some (join rs)
        \<and> from_hdr (mailOptions e (Arr rs) s t h) = EMAIL_USER e
        \<and> subject_hdr (mailOptions e (Arr rs) s t h) = orElse s ''Free epic game''
        \<and> text_body (mailOptions e (Arr rs) s t h) = orElse t []
        \<and> html_body (mailOptions e (Arr rs) s t h) = orElse h [])
   \<and> effects (snd (sendMail e to s t h w)) = effects w @ [MailSubmitted (mailOptions e to s t h)]"
  by (simp add: mailOptions_def sendMail_def Let_def split: option.splits)

theorem recipient_mode_witness:
  "1 < length [''a@x.com'', ''b@x.com'']
   \<and> mailOptions (demo_env [beta_element] accepting) (Arr [''a@x.com'', ''b@x.com'']) None None
        (Some (formatToHTML beta))
      = \<lparr> from_hdr = ''your-email@gmail.com'', to_hdr = None,
          bcc_hdr = Some ''a@x.com, b@x.com'', subject_hdr = ''Free epic game'',
          text_body = [], html_body = formatToHTML beta \<rparr>"
proof -
  let ?e = "demo_env [beta_element] accepting"
  let ?m = "mailOptions ?e (Arr [''a@x.com'', ''b@x.com'']) None None (Some (formatToHTML beta))"
  have l: "1 < length [''a@x.com'', ''b@x.com'']" by simp
  have h: "formatToHTML beta \<noteq> []" by (simp add: formatToHTML_def nl_def)
  from recipient_mode [where e = ?e and s = None and t = None and h = "Some (formatToHTML beta)"
      and rs = "[''a@x.com'', ''b@x.com'']"] l
  have "to_hdr ?m = None \<and> bcc_hdr ?m = Some (join [''a@x.com'', ''b@x.com''])
        \<and> from_hdr ?m = EMAIL_USER ?e \<and> subject_hdr ?m = orElse None ''Free epic game''
        \<and> text_body ?m = orElse None [] \<and> html_body ?m = orElse (Some (formatToHTML beta)) []"
    by blast
  then have "?m = \<lparr> from_hdr = ''your-email@gmail.com'', to_hdr = None,
          bcc_hdr = Some ''a@x.com, b@x.com'', subject_hdr = ''Free epic game'',
          text_body = [], html_body = formatToHTML beta \<rparr>"
    using h by (intro mail_options.equality) (simp_all add: orElse_def demo_env_def)
  with l show ?thesis by simp
qed

text \<open>
  Claim C9. With an empty array of recipients the object has a \<^verbatim>\<open>to\<close> header
  holding the empty string and no \<^verbatim>\<open>bcc\<close>, and \<^verbatim>\<open>sendMail\<close> still hands it to the
  transporter. In a notify cycle with no subscribers the game is appended first and
  that mail is submitted after it.
\<close>

theorem empty_list_still_sent:
  "to_hdr (mailOptions e (Arr []) s t h) = Some []
   \<and> bcc_hdr (mailOptions e (Arr []) s t h) = None
   \<and> effects (snd (sendMail e (Arr []) s t h w))
       = effects w @ [MailSubmitted (mailOptions e (Arr []) s t h)]
   \<and> (\<forall>G coll. curGame e = Inr (Some G) \<and> mailList w = [] \<and> save_game G (gameList w) = Inr coll \<longrightarrow>
        snd (send_to_mailList e w) =
          w\<lparr> gameList := gameList w @ [G],
             effects := effects w @ [GameSaved G,
               MailSubmitted (mailOptions e (Arr []) None None (Some (formatToHTML G)))] \<rparr>)"
proof (intro conjI allI impI)
  fix G coll
  assume a: "curGame e = Inr (Some G) \<and> mailList w = [] \<and> save_game G (gameList w) = Inr coll"
  then have coll: "coll = gameList w @ [G]" and fresh: "game G \<notin> set (map game (gameList w))"
    by (simp_all add: save_game_Inr_iff)
  have ns: "\<not> sameGame G (findLatest (gameList w))"
    using fresh sameGame_in_history by blast
  from a have c: "curGame e = Inr (Some G)" and sv: "save_game G (gameList w) = Inr coll"
    and m: "mailList w = []" by simp_all
  from send_to_mailList_notify [OF c ns sv] coll m
  show "snd (send_to_mailList e w) =
          w\<lparr> gameList := gameList w @ [G],
             effects := effects w @ [GameSaved G,
               MailSubmitted (mailOptions e (Arr []) None None (Some (formatToHTML G)))] \<rparr>"
    by simp
qed (simp_all add: mailOptions_def sendMail_def Let_def split: option.splits)

theorem empty_list_still_sent_witness:
  "curGame (demo_env [alpha_element] accepting) = Inr (Some alpha)
   \<and> mailList (demo_world [] []) = []
   \<and> save_game alpha (gameList (demo_world [] [])) = Inr [alpha]
   \<and> snd (send_to_mailList (demo_env [alpha_element] accepting) (demo_world [] [])) =
       \<lparr> gameList = [alpha], mailList = [],
         effects = [GameSaved alpha,
           MailSubmitted \<lparr> from_hdr = ''your-email@gmail.com'', to_hdr = Some [],
             bcc_hdr = None, subject_hdr = ''Free epic game'',
             text_body = [], html_body = formatToHTML alpha \<rparr>] \<rparr>"
proof -
  let ?e = "demo_env [alpha_element] accepting"
  let ?w = "demo_world [] []"
  have c: "curGame ?e = Inr (Some alpha)" by (rule curGame_demo_alpha1)
  have m: "mailList ?w = []" by (simp add: demo_world_def)
  have sv: "save_game alpha (gameList ?w) = Inr [alpha]"
    by (simp add: save_game_def demo_world_def alpha_def)
  have h: "formatToHTML alpha \<noteq> []" by (simp add: formatToHTML_def nl_def)
  have o: "mailOptions ?e (Arr []) None None (Some (formatToHTML alpha)) =
      \<lparr> from_hdr = ''your-email@gmail.com'', to_hdr = Some [],
             bcc_hdr = None, subject_hdr = ''Free epic game'',
             text_body = [], html_body = formatToHTML alpha \<rparr>"
    using h by (simp add: mailOptions_def orElse_def demo_env_def)
  from empty_list_still_sent [where e = ?e and w = ?w] c m sv
  have "snd (send_to_mailList ?e ?w) =
          ?w\<lparr> gameList := gameList ?w @ [alpha],
             effects := effects ?w @ [GameSaved alpha,
               MailSubmitted (mailOptions ?e (Arr []) None None (Some (formatToHTML alpha)))] \<rparr>"
    by blast
  then show ?thesis using c m sv unfolding o by (simp add: demo_world_def)
qed

section \<open>The current free game\<close>

text \<open>
  Claim C3, as amended. The filter of \<^verbatim>\<open>curGame\<close> keeps exactly the entries whose
  \<^verbatim>\<open>expiryDate\<close> is not \<^verbatim>\<open>null\<close> (an entry that has no such key is kept as well) and
  whose effective date is a valid date strictly before the current time. \<^verbatim>\<open>curGame\<close>
  returns \<^verbatim>\<open>null\<close> exactly when no entry of the feed passes the filter, and otherwise
  the game built from the first entry, in feed order, that passes it: its end date is
  the formatted expiry timestamp, or the rendering of the invalid date when the key is
  missing.
\<close>

theorem curGame_first_current:
  assumes "feed e = Inr games"
  shows "(\<forall>ele. isCurrentFree e ele \<longleftrightarrow>
            expiryDate ele \<noteq> Null \<and> (\<exists>t. Date e (effectiveDate ele) = Some t \<and> t < now e))
       \<and> (curGame e = Inr None \<longleftrightarrow> \<not> (\<exists>ele \<in> set games. isCurrentFree e ele))
       \<and> (\<forall>i x. i < length games \<and> isCurrentFree e (games ! i)
                \<and> expiryDate (games ! i) = Timestamp x
                \<and> (\<forall>j<i. \<not> isCurrentFree e (games ! j))
            \<longrightarrow> curGame e = Inr (Some \<lparr> game = title (games ! i),
                                         startDate = formatDate e (effectiveDate (games ! i)),
                                         endDate = formatDate e x \<rparr>))
       \<and> (\<forall>i. i < length games \<and> isCurrentFree e (games ! i)
                \<and> expiryDate (games ! i) = Undefined
                \<and> (\<forall>j<i. \<not> isCurrentFree e (games ! j))
            \<longrightarrow> curGame e = Inr (Some \<lparr> game = title (games ! i),
                                         startDate = formatDate e (effectiveDate (games ! i)),
                                         endDate = toLocaleDateString e None \<rparr>))"
proof (intro conjI allI impI)
  fix ele
  show "isCurrentFree e ele \<longleftrightarrow>
     expiryDate ele \<noteq> Null \<and> (\<exists>t. Date e (effectiveDate ele) = Some t \<and> t < now e)"
    by (rule isCurrentFree_iff)
next
  show "curGame e = Inr None \<longleftrightarrow> \<not> (\<exists>ele \<in> set games. isCurrentFree e ele)"
  proof (cases "filter (isCurrentFree e) games")
    case Nil
    then have "\<not> (\<exists>ele \<in> set games. isCurrentFree e ele)"
      by (simp add: filter_empty_conv)
    with Nil assms show ?thesis by (simp add: curGame_def)
  next
    case (Cons a rest)
    then have "a \<in> set (filter (isCurrentFree e) games)" by simp
    then have "\<exists>ele \<in> set games. isCurrentFree e ele" by auto
    with Cons assms show ?thesis by (simp add: curGame_def)
  qed
next
  fix i x
  assume h: "i < length games \<and> isCurrentFree e (games ! i)
                \<and> expiryDate (games ! i) = Timestamp x
                \<and> (\<forall>j<i. \<not> isCurrentFree e (games ! j))"
  then obtain rest where "filter (isCurrentFree e) games = games ! i # rest"
    using filter_first_index [of i games "isCurrentFree e"] by blast
  with assms h show "curGame e = Inr (Some \<lparr> game = title (games ! i),
                                         startDate = formatDate e (effectiveDate (games ! i)),
                                         endDate = formatDate e x \<rparr>)"
    by (simp add: curGame_def formatExpiry_def)
next
  fix i
  assume h: "i < length games \<and> isCurrentFree e (games ! i)
                \<and> expiryDate (games ! i) = Undefined
                \<and> (\<forall>j<i. \<not> isCurrentFree e (games ! j))"
  then obtain rest where "filter (isCurrentFree e) games = games ! i # rest"
    using filter_first_index [of i games "isCurrentFree e"] by blast
  with assms h show "curGame e = Inr (Some \<lparr> game = title (games ! i),
                                         startDate = formatDate e (effectiveDate (games ! i)),
                                         endDate = toLocaleDateString e None \<rparr>)"
    by (simp add: curGame_def formatExpiry_def)
qed

text \<open>
  Two feeds. In the first, an entry whose expiry date is \<^verbatim>\<open>null\<close> and one that starts
  next week come before \<^verbatim>\<open>Alpha\<close> and \<^verbatim>\<open>Beta\<close>, both current: \<^verbatim>\<open>Alpha\<close> is returned.
  In the second, the entry with the \<^verbatim>\<open>null\<close> expiry date is followed by one that has
  no \<^verbatim>\<open>expiryDate\<close> key and by \<^verbatim>\<open>Beta\<close>: the keyless entry is returned.
\<close>

theorem curGame_first_current_witness:
  "feed (demo_env [open_ended_element, upcoming_element, alpha_element, beta_element] accepting)
     = Inr [open_ended_element, upcoming_element, alpha_element, beta_element]
   \<and> \<not> isCurrentFree (demo_env [open_ended_element, upcoming_element, alpha_element, beta_element] accepting)
         open_ended_element
   \<and> \<not> isCurrentFree (demo_env [open_ended_element, upcoming_element, alpha_element, beta_element] accepting)
         upcoming_element
   \<and> isCurrentFree (demo_env [open_ended_element, upcoming_element, alpha_element, beta_element] accepting)
         alpha_element
   \<and> isCurrentFree (demo_env [open_ended_element, upcoming_element, alpha_element, beta_element] accepting)
         beta_element
   \<and> curGame (demo_env [open_ended_element, upcoming_element, alpha_element, beta_element] accepting)
       = Inr (Some \<lparr> game = ''Alpha'', startDate = ''1/1/2024'', endDate = ''8/1/2024'' \<rparr>)
   \<and> feed (demo_env [open_ended_element, keyless_element, beta_element] accepting)
       = Inr [open_ended_element, keyless_element, beta_element]
   \<and> expiryDate keyless_element = Undefined
   \<and> curGame (demo_env [open_ended_element, keyless_element, beta_element] accepting)
       = Inr (Some \<lparr> game = ''Epsilon'', startDate = ''1/1/2024'', endDate = ''Invalid Date'' \<rparr>)"
proof -
  let ?games = "[open_ended_element, upcoming_element, alpha_element, beta_element]"
  let ?e = "demo_env ?games accepting"
  have f: "feed ?e = Inr ?games" by (simp add: demo_env_def)
  have a: "\<not> isCurrentFree ?e open_ended_element" by (simp add: demo_defs)
  have b: "\<not> isCurrentFree ?e upcoming_element" by (simp add: demo_defs)
  have c: "isCurrentFree ?e alpha_element" by (simp add: demo_defs)
  have d: "isCurrentFree ?e beta_element" by (simp add: demo_defs)
  have x: "expiryDate (?games ! 2) = Timestamp ''2024-01-08T16:00:00.000Z''"
    by (simp add: alpha_element_def)
  have j: "\<forall>j<2. \<not> isCurrentFree ?e (?games ! j)"
    using a b by (simp add: less_Suc_eq numeral_2_eq_2)
  have i: "(2::nat) < length ?games \<and> isCurrentFree ?e (?games ! 2)
      \<and> expiryDate (?games ! 2) = Timestamp ''2024-01-08T16:00:00.000Z''
      \<and> (\<forall>j<2. \<not> isCurrentFree ?e (?games ! j))"
    using c x j by simp
  from curGame_first_current [OF f] i
  have "curGame ?e = Inr (Some \<lparr> game = title (?games ! 2),
           startDate = formatDate ?e (effectiveDate (?games ! 2)),
           endDate = formatDate ?e ''2024-01-08T16:00:00.000Z'' \<rparr>)"
    by blast
  then have r: "curGame ?e = Inr (Some \<lparr> game = ''Alpha'', startDate = ''1/1/2024'', endDate = ''8/1/2024'' \<rparr>)"
    by (simp add: alpha_element_def formatDate_def demo_env_def demo_Date_def demo_toLocaleDateString_def)
  let ?games' = "[open_ended_element, keyless_element, beta_element]"
  let ?e' = "demo_env ?games' accepting"
  have f': "feed ?e' = Inr ?games'" by (simp add: demo_env_def)
  have a': "\<not> isCurrentFree ?e' open_ended_element" by (simp add: demo_defs)
  have c': "isCurrentFree ?e' keyless_element" by (simp add: demo_defs)
  have u: "expiryDate keyless_element = Undefined" by (simp add: keyless_element_def)
  have i': "(1::nat) < length ?games' \<and> isCurrentFree ?e' (?games' ! 1)
      \<and> expiryDate (?games' ! 1) = Undefined
      \<and> (\<forall>j<1. \<not> isCurrentFree ?e' (?games' ! j))"
    using a' c' u by simp
  from curGame_first_current [OF f'] i'
  have "curGame ?e' = Inr (Some \<lparr> game = title (?games' ! 1),
           startDate = formatDate ?e' (effectiveDate (?games' ! 1)),
           endDate = toLocaleDateString ?e' None \<rparr>)"
    by blast
  then have r': "curGame ?e' = Inr (Some \<lparr> game = ''Epsilon'', startDate = ''1/1/2024'',
      endDate = ''Invalid Date'' \<rparr>)"
    by (simp add: keyless_element_def formatDate_def demo_env_def demo_Date_def
        demo_toLocaleDateString_def)
  from f a b c d r f' u r' show ?thesis by blast
qed

text \<open>
  The claim as stated, that only entries whose expiry date is present are kept, fails
  for an entry that has no \<^verbatim>\<open>expiryDate\<close> key: \<^verbatim>\<open>undefined !== null\<close> is true, so the
  entry passes the filter and, standing before \<^verbatim>\<open>Alpha\<close> in the feed, is the game
  returned, with the invalid date as its end date.
\<close>

theorem missing_expiry_counterexample:
  "expiryDate keyless_element = Undefined
   \<and> isCurrentFree (demo_env [keyless_element, alpha_element] accepting) keyless_element
   \<and> curGame (demo_env [keyless_element, alpha_element] accepting)
       = Inr (Some \<lparr> game = ''Epsilon'', startDate = ''1/1/2024'', endDate = ''Invalid Date'' \<rparr>)"
  by (simp add: curGame_def demo_defs)

section \<open>Adding a subscriber\<close>

text \<open>
  Claim C7. Adding an email that is already in the mailing list is answered with
  status 400 and the message \<^verbatim>\<open>Email already exist in the mailing list\<close>; the state
  is unchanged: nothing is written to the collection and no mail is handed to the
  transporter. This holds for the handler on any such email and for the route on any
  body that validates to it.
\<close>

theorem duplicate_email_rejected:
  assumes "email \<in> set (mailList w)"
  shows "add_mail_handler e email w =
           (Json 400 (ErrorBody ''Email already exist in the mailing list''), w)
       \<and> (\<forall>raw. emailVal e raw = Inr email \<longrightarrow>
            add_mail e raw w =
              (Json 400 (ErrorBody ''Email already exist in the mailing list''), w))"
proof -
  from findOne_mail_Some [OF assms] obtain m where "findOne_mail email (mailList w) = Some m" ..
  then have h: "add_mail_handler e email w =
           (Json 400 (ErrorBody ''Email already exist in the mailing list''), w)"
    by (simp add: add_mail_handler_def errorMiddleware_def)
  then show ?thesis by (simp add: add_mail_def)
qed

theorem duplicate_email_rejected_witness:
  "''a@x.com'' \<in> set (mailList (demo_world [alpha] [''a@x.com'', ''b@x.com'']))
   \<and> emailVal (demo_env [alpha_element] accepting) ''a@x.com'' = Inr ''a@x.com''
   \<and> add_mail (demo_env [alpha_element] accepting) ''a@x.com''
        (demo_world [alpha] [''a@x.com'', ''b@x.com'']) =
       (Json 400 (ErrorBody ''Email already exist in the mailing list''),
        demo_world [alpha] [''a@x.com'', ''b@x.com''])"
proof -
  let ?e = "demo_env [alpha_element] accepting"
  let ?w = "demo_world [alpha] [''a@x.com'', ''b@x.com'']"
  have i: "''a@x.com'' \<in> set (mailList ?w)" by (simp add: demo_world_def)
  have v: "emailVal ?e ''a@x.com'' = Inr ''a@x.com''"
    by (simp add: emailVal_def demo_env_def demo_isEmail_def)
  from duplicate_email_rejected [OF i, of ?e] v
  have "add_mail ?e ''a@x.com'' ?w =
       (Json 400 (ErrorBody ''Email already exist in the mailing list''), ?w)"
    by blast
  with i v show ?thesis by simp
qed

text \<open>
  Claim C10. Adding an email that passes validation and is not yet in the mailing list
  stores it. When \<^verbatim>\<open>curGame\<close> returns \<^verbatim>\<open>null\<close> the answer is 201 and no mail is
  sent. When a current free game exists, one mail is handed to the transporter after
  the email is stored, addressed in \<^verbatim>\<open>to\<close> mode to that single address with the
  game's HTML as body, and the answer is 201 when the transporter accepts it.
\<close>

theorem new_email_added:
  assumes "emailVal e raw = Inr email" and "email \<notin> set (mailList w)"
  shows "(curGame e = Inr None \<longrightarrow>
            add_mail e raw w =
              (Json 201 (Msg ''Email added to list''),
               w\<lparr> mailList := mailList w @ [email], effects := effects w @ [MailSaved email] \<rparr>))
       \<and> (\<forall>g. curGame e = Inr (Some g) \<longrightarrow>
            snd (add_mail e raw w) =
              w\<lparr> mailList := mailList w @ [email],
                 effects := effects w @ [MailSaved email,
                   MailSubmitted (mailOptions e (Str email) None None (Some (formatToHTML g)))] \<rparr>
            \<and> to_hdr (mailOptions e (Str email) None None (Some (formatToHTML g))) = Some email
            \<and> bcc_hdr (mailOptions e (Str email) None None (Some (formatToHTML g))) = None
            \<and> html_body (mailOptions e (Str email) None None (Some (formatToHTML g))) = formatToHTML g
            \<and> (transport e (mailOptions e (Str email) None None (Some (formatToHTML g))) = None \<longrightarrow>
                 fst (add_mail e raw w) = Json 201 (Msg ''Email added to list'')))"
proof -
  have ne: "email \<noteq> []" using assms(1) by (auto simp: emailVal_Inr)
  have f: "findOne_mail email (mailList w) = None"
    using assms(2) by (simp add: findOne_mail_None)
  have sv: "save_mail email (mailList w) = Inr (mailList w @ [email])"
    using ne assms(2) by (simp add: save_mail_def)
  have r: "add_mail e raw w = add_mail_handler e email w"
    using assms(1) by (simp add: add_mail_def)
  show ?thesis
    unfolding r
    by (simp add: add_mail_handler_def f sv sendMail_def Let_def mailOptions_def orElse_def
        formatToHTML_not_empty split: option.splits)
qed

theorem new_email_added_witness:
  "emailVal (demo_env [open_ended_element, upcoming_element] accepting) ''c@x.com'' = Inr ''c@x.com''
   \<and> ''c@x.com'' \<notin> set (mailList (demo_world [alpha] [''a@x.com'']))
   \<and> curGame (demo_env [open_ended_element, upcoming_element] accepting) = Inr None
   \<and> add_mail (demo_env [open_ended_element, upcoming_element] accepting) ''c@x.com''
        (demo_world [alpha] [''a@x.com'']) =
       (Json 201 (Msg ''Email added to list''),
        \<lparr> gameList = [alpha], mailList = [''a@x.com'', ''c@x.com''],
          effects = [MailSaved ''c@x.com''] \<rparr>)
   \<and> emailVal (demo_env [alpha_element] accepting) ''c@x.com'' = Inr ''c@x.com''
   \<and> curGame (demo_env [alpha_element] accepting) = Inr (Some alpha)
   \<and> transport (demo_env [alpha_element] accepting)
        (mailOptions (demo_env [alpha_element] accepting) (Str ''c@x.com'') None None
           (Some (formatToHTML alpha))) = None
   \<and> add_mail (demo_env [alpha_element] accepting) ''c@x.com'' (demo_world [alpha] [''a@x.com'']) =
       (Json 201 (Msg ''Email added to list''),
        \<lparr> gameList = [alpha], mailList = [''a@x.com'', ''c@x.com''],
          effects = [MailSaved ''c@x.com'',
            MailSubmitted (mailOptions (demo_env [alpha_element] accepting) (Str ''c@x.com'')
              None None (Some (formatToHTML alpha)))] \<rparr>)"
proof -
  let ?e0 = "demo_env [open_ended_element, upcoming_element] accepting"
  let ?e1 = "demo_env [alpha_element] accepting"
  let ?w = "demo_world [alpha] [''a@x.com'']"
  let ?m = "mailOptions ?e1 (Str ''c@x.com'') None None (Some (formatToHTML alpha))"
  have v0: "emailVal ?e0 ''c@x.com'' = Inr ''c@x.com''"
    by (simp add: emailVal_def demo_env_def demo_isEmail_def)
  have v1: "emailVal ?e1 ''c@x.com'' = Inr ''c@x.com''"
    by (simp add: emailVal_def demo_env_def demo_isEmail_def)
  have n: "''c@x.com'' \<notin> set (mailList ?w)" by (simp add: demo_world_def)
  have c0: "curGame ?e0 = Inr None" by (rule curGame_demo_none)
  have c1: "curGame ?e1 = Inr (Some alpha)" by (rule curGame_demo_alpha1)
  have tr: "transport ?e1 ?m = None" by (simp add: demo_env_def accepting_def)
  from new_email_added [OF v0 n] c0
  have a0: "add_mail ?e0 ''c@x.com'' ?w =
      (Json 201 (Msg ''Email added to list''),
       ?w\<lparr> mailList := mailList ?w @ [''c@x.com''], effects := effects ?w @ [MailSaved ''c@x.com''] \<rparr>)"
    by blast
  from new_email_added [OF v1 n] c1
  have s1: "snd (add_mail ?e1 ''c@x.com'' ?w) =
      ?w\<lparr> mailList := mailList ?w @ [''c@x.com''],
          effects := effects ?w @ [MailSaved ''c@x.com'', MailSubmitted ?m] \<rparr>"
    by blast
  from new_email_added [OF v1 n] c1 tr
  have f1: "fst (add_mail ?e1 ''c@x.com'' ?w) = Json 201 (Msg ''Email added to list'')"
    by blast
  have p: "add_mail ?e1 ''c@x.com'' ?w = (fst (add_mail ?e1 ''c@x.com'' ?w), snd (add_mail ?e1 ''c@x.com'' ?w))"
    by simp
  have a1: "add_mail ?e1 ''c@x.com'' ?w =
      (Json 201 (Msg ''Email added to list''),
       ?w\<lparr> mailList := mailList ?w @ [''c@x.com''],
          effects := effects ?w @ [MailSaved ''c@x.com'', MailSubmitted ?m] \<rparr>)"
    using p unfolding f1 s1 .
  show ?thesis
    using v0 v1 n c0 c1 tr unfolding a0 a1 by (simp add: demo_world_def)
qed

end
